theory Spec2Isabelle
  imports Complex_Main "HOL-Library.Sublist"
begin

section \<open>Document projections: the data model of \<^verbatim>\<open>memoir/core/projections.py\<close>\<close>

text \<open>
  Python strings are modelled as \<^typ>\<open>string\<close>, Python's unbounded integers as
  \<^typ>\<open>int\<close>, lists as lists.  Objects are modelled by value: every method that
  mutates \<^verbatim>\<open>self\<close> becomes a function returning the updated record.  A reading of
  \<^verbatim>\<open>utc_now()\<close> is the argument \<open>now\<close> of the operation that reads the clock.
\<close>

type_synonym timestamp = nat

datatype SectionState = GENERATED | LOCKED | DRAFT | EMPTY

datatype UpdateMode = REGENERATE | EVOLVE | APPEND | REFRESH

datatype ProjectionStyle = CHRONOLOGICAL | THEMATIC | BY_CONTRIBUTOR | QUESTIONS | FREEFORM

datatype ProjectionLength = SUMMARY | STANDARD | COMPREHENSIVE

text \<open>The \<^verbatim>\<open>.value\<close> of each enumeration member.\<close>

fun UpdateMode_value :: "UpdateMode \<Rightarrow> string" where
  "UpdateMode_value REGENERATE = ''regenerate''"
| "UpdateMode_value EVOLVE = ''evolve''"
| "UpdateMode_value APPEND = ''append''"
| "UpdateMode_value REFRESH = ''refresh''"

fun ProjectionStyle_value :: "ProjectionStyle \<Rightarrow> string" where
  "ProjectionStyle_value CHRONOLOGICAL = ''chronological''"
| "ProjectionStyle_value THEMATIC = ''thematic''"
| "ProjectionStyle_value BY_CONTRIBUTOR = ''by_contributor''"
| "ProjectionStyle_value QUESTIONS = ''questions''"
| "ProjectionStyle_value FREEFORM = ''freeform''"

fun ProjectionLength_value :: "ProjectionLength \<Rightarrow> string" where
  "ProjectionLength_value SUMMARY = ''summary''"
| "ProjectionLength_value STANDARD = ''standard''"
| "ProjectionLength_value COMPREHENSIVE = ''comprehensive''"

subsection \<open>Narrative context\<close>

text \<open>
  \<^verbatim>\<open>DiscoveredTheme.strength\<close> is a Python float, a double: it is modelled as the
  real number the double denotes.  Comparing two doubles and taking the smaller of two
  is exact; adding them rounds, so the addition \<^verbatim>\<open>strength + 0.1\<close> is not written
  out as a sum of reals but taken as a parameter of the merge (see \<open>merge_theme\<close>).
\<close>

record DiscoveredTheme =
  theme :: string
  description :: string
  evidence :: "string list"
  strength :: real
  theme_source_content_ids :: "string list"

record NarrativeContext =
  ctx_summary :: string
  key_facts :: "string \<rightharpoonup> string"
  themes :: "DiscoveredTheme list"
  suggested_topics :: "string list"
  covered_topics :: "string list"
  emotional_tone :: string
  voice_notes :: string
  ctx_updated_at :: timestamp

text \<open>
  A character of a string is a code point below 256.  On these \<^verbatim>\<open>str.lower()\<close>
  maps the letters \<^verbatim>\<open>A\<close> .. \<^verbatim>\<open>Z\<close> and the accented capitals U+00C0 .. U+00D6
  and U+00D8 .. U+00DE to the code point 32 above, and leaves every other character
  (also U+00D7 and U+00DF) as it is.
\<close>

definition latin1_upper :: string where
  "latin1_upper =
     ''ABCDEFGHIJKLMNOPQRSTUVWXYZ'' @
     [CHR 0xC0, CHR 0xC1, CHR 0xC2, CHR 0xC3, CHR 0xC4, CHR 0xC5,
      CHR 0xC6, CHR 0xC7, CHR 0xC8, CHR 0xC9, CHR 0xCA, CHR 0xCB,
      CHR 0xCC, CHR 0xCD, CHR 0xCE, CHR 0xCF, CHR 0xD0, CHR 0xD1,
      CHR 0xD2, CHR 0xD3, CHR 0xD4, CHR 0xD5, CHR 0xD6, CHR 0xD8,
      CHR 0xD9, CHR 0xDA, CHR 0xDB, CHR 0xDC, CHR 0xDD, CHR 0xDE]"

definition latin1_lower :: string where
  "latin1_lower =
     ''abcdefghijklmnopqrstuvwxyz'' @
     [CHR 0xE0, CHR 0xE1, CHR 0xE2, CHR 0xE3, CHR 0xE4, CHR 0xE5,
      CHR 0xE6, CHR 0xE7, CHR 0xE8, CHR 0xE9, CHR 0xEA, CHR 0xEB,
      CHR 0xEC, CHR 0xED, CHR 0xEE, CHR 0xEF, CHR 0xF0, CHR 0xF1,
      CHR 0xF2, CHR 0xF3, CHR 0xF4, CHR 0xF5, CHR 0xF6, CHR 0xF8,
      CHR 0xF9, CHR 0xFA, CHR 0xFB, CHR 0xFC, CHR 0xFD, CHR 0xFE]"

definition lower_char :: "char \<Rightarrow> char" where
  "lower_char c =
     (case map_of (zip latin1_upper latin1_lower) c of
        Some d \<Rightarrow> d
      | None \<Rightarrow> c)"

definition lower :: "string \<Rightarrow> string" where
  "lower s = map lower_char s"

text \<open>
  \<^verbatim>\<open>NarrativeContext.add_theme\<close>: the loop over \<^verbatim>\<open>self.themes\<close> merges into the
  first theme whose lower-cased name equals the candidate's and returns; when the loop
  ends without a match the candidate is appended.

  Two primitives of Python are parameters of the method: \<open>str_lower\<close> stands for
  \<^verbatim>\<open>str.lower\<close> and \<open>add_tenth\<close> for the double addition \<^verbatim>\<open>x + 0.1\<close>, so
  that what is proved of \<open>add_theme\<close> rests on no particular table of letters and on
  no particular rounding.
\<close>

definition merge_theme :: "(real \<Rightarrow> real) \<Rightarrow> DiscoveredTheme \<Rightarrow> DiscoveredTheme \<Rightarrow> DiscoveredTheme" where
  "merge_theme add_tenth existing t =
     existing\<lparr>evidence := evidence existing @ evidence t,
              theme_source_content_ids :=
                theme_source_content_ids existing @ theme_source_content_ids t,
              strength := min 1 (add_tenth (strength existing))\<rparr>"

fun add_theme_loop :: "(string \<Rightarrow> string) \<Rightarrow> (real \<Rightarrow> real) \<Rightarrow> DiscoveredTheme list \<Rightarrow> DiscoveredTheme
      \<Rightarrow> DiscoveredTheme list option" where
  "add_theme_loop str_lower add_tenth [] t = None"
| "add_theme_loop str_lower add_tenth (existing # rest) t =
     (if str_lower (theme existing) = str_lower (theme t)
      then Some (merge_theme add_tenth existing t # rest)
      else map_option (\<lambda>r. existing # r) (add_theme_loop str_lower add_tenth rest t))"

definition add_theme :: "(string \<Rightarrow> string) \<Rightarrow> (real \<Rightarrow> real) \<Rightarrow> DiscoveredTheme \<Rightarrow> NarrativeContext
      \<Rightarrow> NarrativeContext" where
  "add_theme str_lower add_tenth t ctx =
     (case add_theme_loop str_lower add_tenth (themes ctx) t of
        Some ths \<Rightarrow> ctx\<lparr>themes := ths\<rparr>
      | None \<Rightarrow> ctx\<lparr>themes := themes ctx @ [t]\<rparr>)"

text \<open>
  The double nearest to 0.1 is \<open>3602879701896397 / 2 ^ 55\<close>.  The service model adds
  it without rounding, which is the double sum wherever that sum is a double itself;
  no statement about the service below concerns a strength.
\<close>

definition float_add_tenth :: "real \<Rightarrow> real" where
  "float_add_tenth x = x + 3602879701896397 / 36028797018963968"

definition context_update :: "timestamp \<Rightarrow> NarrativeContext \<Rightarrow> NarrativeContext" where
  "context_update now ctx = ctx\<lparr>ctx_updated_at := now\<rparr>"

subsection \<open>Section versions and projected sections\<close>

record SectionVersion =
  sv_version :: int
  sv_content :: string
  sv_summary :: string
  sv_trigger :: string
  sv_source_content_ids :: "string list"
  sv_created_at :: timestamp
  sv_created_by :: "string option"

record ProjectedSection =
  sec_id :: string
  title :: string
  content :: string
  summary :: string
  source_content_ids :: "string list"
  contributor_ids :: "string list"
  state :: SectionState
  generated_at :: "timestamp option"
  locked_at :: "timestamp option"
  locked_by :: "string option"
  lock_reason :: "string option"
  order_index :: int
  version :: int
  history :: "SectionVersion list"
  last_content_snapshot :: "string list"

definition lock :: "string \<Rightarrow> string \<Rightarrow> timestamp \<Rightarrow> ProjectedSection \<Rightarrow> ProjectedSection" where
  "lock user_id reason now s =
     s\<lparr>state := LOCKED, locked_at := Some now, locked_by := Some user_id,
       lock_reason := Some reason\<rparr>"

definition unlock :: "ProjectedSection \<Rightarrow> ProjectedSection" where
  "unlock s = s\<lparr>state := GENERATED, locked_at := None, locked_by := None, lock_reason := None\<rparr>"

definition start_editing :: "ProjectedSection \<Rightarrow> ProjectedSection" where
  "start_editing s = s\<lparr>state := DRAFT\<rparr>"

text \<open>The snapshot of the current state that \<^verbatim>\<open>_save_to_history\<close> appends.\<close>

definition current_snapshot :: "string \<Rightarrow> string option \<Rightarrow> timestamp \<Rightarrow> ProjectedSection \<Rightarrow> SectionVersion" where
  "current_snapshot trigger user_id now s =
     \<lparr>sv_version = version s, sv_content = content s, sv_summary = summary s,
      sv_trigger = trigger, sv_source_content_ids = source_content_ids s,
      sv_created_at = now, sv_created_by = user_id\<rparr>"

text \<open>\<^verbatim>\<open>xs[-n:]\<close>: the last \<open>n\<close> elements of a list (for positive \<open>n\<close>).\<close>

definition keep_last :: "nat \<Rightarrow> 'a list \<Rightarrow> 'a list" where
  "keep_last n xs = drop (length xs - n) xs"

definition save_to_history :: "string \<Rightarrow> string option \<Rightarrow> timestamp \<Rightarrow> ProjectedSection \<Rightarrow> ProjectedSection" where
  "save_to_history trigger user_id now s =
     (if content s = [] then s
      else let h = history s @ [current_snapshot trigger user_id now s]
           in s\<lparr>history := (if length h > 10 then keep_last 10 h else h)\<rparr>)"

definition finish_editing :: "string \<Rightarrow> bool \<Rightarrow> string option \<Rightarrow> timestamp \<Rightarrow> ProjectedSection \<Rightarrow> ProjectedSection" where
  "finish_editing new_content do_lock user_id now s =
     (let s1 = save_to_history ''manual_edit'' user_id now s;
          s2 = s1\<lparr>content := new_content, version := version s1 + 1\<rparr>
      in if do_lock
         then s2\<lparr>state := LOCKED, locked_at := Some now, locked_by := user_id,
                 lock_reason := Some ''manually edited''\<rparr>
         else s2\<lparr>state := GENERATED\<rparr>)"

definition update_content :: "string \<Rightarrow> string list \<Rightarrow> string \<Rightarrow> timestamp \<Rightarrow> ProjectedSection \<Rightarrow> ProjectedSection" where
  "update_content new_content ids trigger now s =
     (let s1 = (if content s \<noteq> [] then save_to_history trigger None now s else s)
      in s1\<lparr>content := new_content, source_content_ids := ids,
             last_content_snapshot := ids, generated_at := Some now,
             state := GENERATED, version := version s1 + 1\<rparr>)"

text \<open>
  \<^verbatim>\<open>revert_to_version\<close> returns the flag together with the section.  The loop stops at
  the first history entry with the requested version; that entry is read after the
  current state has been saved.
\<close>

definition revert_to_version :: "int \<Rightarrow> timestamp \<Rightarrow> ProjectedSection \<Rightarrow> bool \<times> ProjectedSection" where
  "revert_to_version v now s =
     (case find (\<lambda>h. sv_version h = v) (history s) of
        None \<Rightarrow> (False, s)
      | Some hist \<Rightarrow>
          (let s1 = save_to_history ''revert'' None now s
           in (True, s1\<lparr>content := sv_content hist, summary := sv_summary hist,
                        source_content_ids := sv_source_content_ids hist,
                        version := version s1 + 1\<rparr>)))"

definition is_stale :: "string list \<Rightarrow> ProjectedSection \<Rightarrow> bool" where
  "is_stale current_content_ids s = (set current_content_ids \<noteq> set (last_content_snapshot s))"

definition is_locked :: "ProjectedSection \<Rightarrow> bool" where
  "is_locked s = (state s = LOCKED)"

definition can_regenerate :: "ProjectedSection \<Rightarrow> bool" where
  "can_regenerate s = (state s = GENERATED \<or> state s = EMPTY)"

subsection \<open>Projection configuration and document versions\<close>

record ProjectionConfig =
  style :: ProjectionStyle
  length_cfg :: ProjectionLength
  default_update_mode :: UpdateMode
  auto_update_on_content :: bool
  contributor_filter :: "string list option"
  tag_filter :: "string list option"
  suggested_sections :: "string list option"
  min_sections :: int
  max_sections :: int
  voice_guidance :: "string option"

record ProjectionVersion =
  pv_version :: int
  pv_created_at :: timestamp
  pv_trigger :: string
  pv_update_mode :: "UpdateMode option"
  pv_section_count :: nat
  pv_word_count :: nat
  pv_content_item_count :: nat
  pv_change_summary :: string

subsection \<open>Document projection\<close>

record DocumentProjection =
  doc_id :: string
  project_id :: string
  name :: string
  sections :: "ProjectedSection list"
  config :: ProjectionConfig
  doc_context :: NarrativeContext
  doc_version :: int
  version_history :: "ProjectionVersion list"
  created_at :: timestamp
  updated_at :: timestamp
  last_regenerated :: "timestamp option"
  content_snapshot_ids :: "string list"
  word_count :: nat

text \<open>
  \<^verbatim>\<open>str.split()\<close> without arguments: the maximal runs of non-whitespace characters.
  The whitespace characters are those of Python below code point 256.
\<close>

definition is_space :: "char \<Rightarrow> bool" where
  "is_space c =
     (c \<in> set [CHR 0x09, CHR 0x0A, CHR 0x0B, CHR 0x0C, CHR 0x0D, CHR 0x1C, CHR 0x1D,
                CHR 0x1E, CHR 0x1F, CHR 0x20, CHR 0x85, CHR 0xA0])"

fun split_acc :: "string \<Rightarrow> string \<Rightarrow> string list" where
  "split_acc cur [] = (if cur = [] then [] else [cur])"
| "split_acc cur (c # cs) =
     (if is_space c
      then (if cur = [] then split_acc [] cs else cur # split_acc [] cs)
      else split_acc (cur @ [c]) cs)"

definition split :: "string \<Rightarrow> string list" where
  "split s = split_acc [] s"

text \<open>
  The sum that \<^verbatim>\<open>_update_stats\<close> computes: the number of whitespace-delimited tokens
  of every section with non-empty content.
\<close>

definition count_words :: "ProjectedSection list \<Rightarrow> nat" where
  "count_words secs = sum_list (map (\<lambda>s. length (split (content s))) (filter (\<lambda>s. content s \<noteq> []) secs))"

definition update_stats :: "timestamp \<Rightarrow> DocumentProjection \<Rightarrow> DocumentProjection" where
  "update_stats now p = p\<lparr>word_count := count_words (sections p), updated_at := now\<rparr>"

definition get_section :: "string \<Rightarrow> DocumentProjection \<Rightarrow> ProjectedSection option" where
  "get_section section_id p = find (\<lambda>s. sec_id s = section_id) (sections p)"

definition add_section :: "ProjectedSection \<Rightarrow> timestamp \<Rightarrow> DocumentProjection \<Rightarrow> DocumentProjection" where
  "add_section s now p =
     update_stats now (p\<lparr>sections := sections p @ [s\<lparr>order_index := int (length (sections p))\<rparr>]\<rparr>)"

text \<open>\<^verbatim>\<open>_reorder_sections\<close>: renumber the sections by their position.\<close>

definition renumber_sections :: "DocumentProjection \<Rightarrow> DocumentProjection" where
  "renumber_sections p =
     p\<lparr>sections := map (\<lambda>(i, s). s\<lparr>order_index := int i\<rparr>) (enumerate 0 (sections p))\<rparr>"

fun remove_first :: "string \<Rightarrow> ProjectedSection list \<Rightarrow> ProjectedSection list option" where
  "remove_first section_id [] = None"
| "remove_first section_id (s # rest) =
     (if sec_id s = section_id then Some rest
      else map_option (\<lambda>r. s # r) (remove_first section_id rest))"

definition remove_section :: "string \<Rightarrow> timestamp \<Rightarrow> DocumentProjection \<Rightarrow> bool \<times> DocumentProjection" where
  "remove_section section_id now p =
     (case remove_first section_id (sections p) of
        None \<Rightarrow> (False, p)
      | Some rest \<Rightarrow> (True, update_stats now (renumber_sections (p\<lparr>sections := rest\<rparr>))))"

text \<open>
  \<^verbatim>\<open>reorder_sections\<close> builds the dictionary \<^verbatim>\<open>id_to_section\<close> (for sections sharing an
  id the later one wins), then walks over \<^verbatim>\<open>enumerate(section_ids)\<close>: a known id has the
  order of its section object set to the index \<open>i\<close> and the object appended to
  \<^verbatim>\<open>new_order\<close>.  The section objects are shared between the dictionary and
  \<^verbatim>\<open>new_order\<close>, so the loop works on the dictionary as the store of the objects and
  collects references (the ids); the new section list reads the objects at the end.
\<close>

definition id_to_section :: "ProjectedSection list \<Rightarrow> (string \<rightharpoonup> ProjectedSection)" where
  "id_to_section secs = map_of (rev (map (\<lambda>s. (sec_id s, s)) secs))"

fun reorder_loop :: "(string \<rightharpoonup> ProjectedSection) \<Rightarrow> (nat \<times> string) list \<Rightarrow> string list
      \<Rightarrow> (string \<rightharpoonup> ProjectedSection) \<times> string list" where
  "reorder_loop store [] new_order = (store, new_order)"
| "reorder_loop store ((i, sid) # rest) new_order =
     (case store sid of
        None \<Rightarrow> reorder_loop store rest new_order
      | Some sec \<Rightarrow>
          reorder_loop (store(sid \<mapsto> sec\<lparr>order_index := int i\<rparr>)) rest (new_order @ [sid]))"

definition reorder_sections :: "string list \<Rightarrow> DocumentProjection \<Rightarrow> DocumentProjection" where
  "reorder_sections section_ids p =
     (case reorder_loop (id_to_section (sections p)) (enumerate 0 section_ids) [] of
        (store, new_order) \<Rightarrow> p\<lparr>sections := List.map_filter store new_order\<rparr>)"

text \<open>Apply an in-place mutation to the first section with the given id.\<close>

fun map_section :: "string \<Rightarrow> (ProjectedSection \<Rightarrow> ProjectedSection) \<Rightarrow> ProjectedSection list \<Rightarrow> ProjectedSection list" where
  "map_section section_id f [] = []"
| "map_section section_id f (s # rest) =
     (if sec_id s = section_id then f s # rest else s # map_section section_id f rest)"

definition lock_section :: "string \<Rightarrow> string \<Rightarrow> string \<Rightarrow> timestamp \<Rightarrow> DocumentProjection \<Rightarrow> bool \<times> DocumentProjection" where
  "lock_section section_id user_id reason now p =
     (case get_section section_id p of
        None \<Rightarrow> (False, p)
      | Some _ \<Rightarrow> (True, p\<lparr>sections := map_section section_id (lock user_id reason now) (sections p)\<rparr>))"

definition unlock_section :: "string \<Rightarrow> DocumentProjection \<Rightarrow> bool \<times> DocumentProjection" where
  "unlock_section section_id p =
     (case get_section section_id p of
        None \<Rightarrow> (False, p)
      | Some _ \<Rightarrow> (True, p\<lparr>sections := map_section section_id unlock (sections p)\<rparr>))"

definition get_locked_sections :: "DocumentProjection \<Rightarrow> ProjectedSection list" where
  "get_locked_sections p = filter is_locked (sections p)"

definition get_regeneratable_sections :: "DocumentProjection \<Rightarrow> ProjectedSection list" where
  "get_regeneratable_sections p = filter can_regenerate (sections p)"

definition get_stale_sections :: "string list \<Rightarrow> DocumentProjection \<Rightarrow> ProjectedSection list" where
  "get_stale_sections current_content_ids p =
     filter (\<lambda>s. can_regenerate s \<and> is_stale current_content_ids s) (sections p)"

text \<open>The record of the current state that \<^verbatim>\<open>_save_version\<close> appends.\<close>

definition current_version :: "string \<Rightarrow> UpdateMode option \<Rightarrow> string \<Rightarrow> timestamp \<Rightarrow> DocumentProjection \<Rightarrow> ProjectionVersion" where
  "current_version trigger mode change_summary now p =
     \<lparr>pv_version = doc_version p, pv_created_at = now, pv_trigger = trigger,
      pv_update_mode = mode, pv_section_count = length (sections p),
      pv_word_count = word_count p,
      pv_content_item_count = length (content_snapshot_ids p),
      pv_change_summary = change_summary\<rparr>"

definition save_version :: "string \<Rightarrow> UpdateMode option \<Rightarrow> string \<Rightarrow> timestamp \<Rightarrow> DocumentProjection \<Rightarrow> DocumentProjection" where
  "save_version trigger mode change_summary now p =
     (let h = version_history p @ [current_version trigger mode change_summary now p]
      in p\<lparr>version_history := (if length h > 20 then keep_last 20 h else h)\<rparr>)"

definition mark_updated :: "string list \<Rightarrow> UpdateMode \<Rightarrow> string \<Rightarrow> timestamp \<Rightarrow> DocumentProjection \<Rightarrow> DocumentProjection" where
  "mark_updated content_ids mode change_summary now p =
     (let p1 = save_version ''update'' (Some mode) change_summary now p
      in update_stats now
           (p1\<lparr>doc_version := doc_version p1 + 1, updated_at := now,
               last_regenerated := Some now, content_snapshot_ids := content_ids\<rparr>))"

subsection \<open>Content pool\<close>

record ContentPool =
  pool_project_id :: string
  content_ids :: "string list"
  pool_contributor_ids :: "string set"
  tags :: "string set"
  total_items :: nat
  last_updated :: timestamp

definition add_content :: "string \<Rightarrow> string \<Rightarrow> string list \<Rightarrow> timestamp \<Rightarrow> ContentPool \<Rightarrow> ContentPool" where
  "add_content content_id contributor_id tgs now pool =
     (if content_id \<in> set (content_ids pool) then pool
      else pool\<lparr>content_ids := content_ids pool @ [content_id],
                pool_contributor_ids := insert contributor_id (pool_contributor_ids pool),
                tags := tags pool \<union> set tgs,
                total_items := length (content_ids pool) + 1,
                last_updated := now\<rparr>)"

definition get_new_content_ids :: "string list \<Rightarrow> ContentPool \<Rightarrow> string list" where
  "get_new_content_ids since_ids pool = filter (\<lambda>cid. cid \<notin> set since_ids) (content_ids pool)"

definition get_filtered_ids :: "string list option \<Rightarrow> string list option \<Rightarrow> ContentPool \<Rightarrow> string list" where
  "get_filtered_ids contributor_flt tag_flt pool = content_ids pool"

section \<open>The projection service of \<^verbatim>\<open>memoir/services/projection.py\<close>\<close>

subsection \<open>Content items and the synthesis capability\<close>

text \<open>
  Of a content item the service reads the id, the contributor and, from the payload
  dictionary, the keys \<^verbatim>\<open>answer_text\<close>, \<^verbatim>\<open>question_text\<close> and \<^verbatim>\<open>text\<close>
  (\<open>None\<close>: the key is absent).
\<close>

record ContentItem =
  item_id :: string
  item_project_id :: string
  item_contributor_id :: string
  answer_text :: "string option"
  question_text :: "string option"
  text_payload :: "string option"
  item_tags :: "string list"

datatype theme_data = ThemeStr string | ThemeDict "string option" "string option" | ThemeOther

record ThemesResult =
  r_themes :: "theme_data list"
  r_key_facts :: "string \<rightharpoonup> string"
  r_suggested_topics :: "string list"
  r_emotional_tone :: string

text \<open>
  The synthesis capability \<^verbatim>\<open>MemoirAI\<close> is external: its three methods are
  parameters of the model.  A call that raises returns \<open>None\<close>.
  \<^verbatim>\<open>generate_section(title, content, style, context, length)\<close> yields the
  \<^verbatim>\<open>content\<close> entry of its result,
  \<^verbatim>\<open>regenerate_section(title, existing_content, new_content, style)\<close> the updated
  prose.
\<close>

record MemoirAI =
  generate_section :: "string \<Rightarrow> string \<Rightarrow> string \<Rightarrow> string \<Rightarrow> string \<Rightarrow> string option"
  regenerate_section :: "string \<Rightarrow> string \<Rightarrow> string \<Rightarrow> string \<Rightarrow> string option"
  extract_themes :: "string \<Rightarrow> string list \<Rightarrow> ThemesResult option"

record ProjectionService =
  content_pools :: "string \<rightharpoonup> ContentPool"
  projections :: "string \<rightharpoonup> DocumentProjection"
  project_projections :: "string \<rightharpoonup> string list"
  content_items :: "string \<rightharpoonup> ContentItem"
  ai :: "MemoirAI option"

subsection \<open>Text helpers\<close>

definition newline :: string where
  "newline = [CHR 0x0A]"

definition dquote :: string where
  "dquote = [CHR 0x22]"

text \<open>\<^verbatim>\<open>sep.join(xs)\<close>.\<close>

fun join :: "string \<Rightarrow> string list \<Rightarrow> string" where
  "join sep [] = []"
| "join sep [x] = x"
| "join sep (x # y # ys) = x @ sep @ join sep (y # ys)"

text \<open>The decimal rendering of a non-negative integer in an f-string.\<close>

definition digit_char :: "nat \<Rightarrow> char" where
  "digit_char d = ''0123456789'' ! (d mod 10)"

fun string_of_nat :: "nat \<Rightarrow> string" where
  "string_of_nat n =
     (if n < 10 then [digit_char n] else string_of_nat (n div 10) @ [digit_char n])"

declare string_of_nat.simps [simp del]

fun item_text :: "ContentItem \<Rightarrow> string list" where
  "item_text item =
     (case answer_text item of
        Some a \<Rightarrow>
          (let q = (case question_text item of None \<Rightarrow> [] | Some q' \<Rightarrow> q')
           in [if q \<noteq> [] then ''Q: '' @ q @ newline @ ''A: '' @ a else a])
      | None \<Rightarrow> (case text_payload item of Some t \<Rightarrow> [t] | None \<Rightarrow> []))"

definition extract_texts :: "ContentItem list \<Rightarrow> string list" where
  "extract_texts items = concat (map item_text items)"

definition length_desc :: "ProjectionLength \<Rightarrow> string" where
  "length_desc l = (case l of SUMMARY \<Rightarrow> ''brief'' | STANDARD \<Rightarrow> ''standard''
                     | COMPREHENSIVE \<Rightarrow> ''comprehensive'')"

definition length_map :: "ProjectionLength \<Rightarrow> string" where
  "length_map l = (case l of SUMMARY \<Rightarrow> ''brief'' | STANDARD \<Rightarrow> ''standard''
                    | COMPREHENSIVE \<Rightarrow> ''detailed'')"

definition stub_generate_section :: "string \<Rightarrow> string list \<Rightarrow> ProjectionConfig \<Rightarrow> string" where
  "stub_generate_section section_topic texts cfg =
     (let n_items = length texts;
          preview = (case texts of
                       [] \<Rightarrow> []
                     | t # _ \<Rightarrow> (if length t > 200 then take 200 t @ ''...'' else t))
      in ''*[AI-generated '' @ length_desc (length_cfg cfg) @ '' section about '' @ dquote
           @ section_topic @ dquote @ '']*'' @ newline @ newline
           @ ''Based on '' @ string_of_nat n_items @ '' content items.'' @ newline @ newline
           @ preview @ newline @ newline
           @ ''---'' @ newline @ newline
           @ ''*[Configure GOOGLE_API_KEY in .env to enable real AI generation with Gemini.]*''
           @ newline)"

text \<open>\<^verbatim>\<open>config.voice_guidance or "warm and engaging"\<close>.\<close>

definition style_guidance :: "ProjectionConfig \<Rightarrow> string" where
  "style_guidance cfg =
     (case voice_guidance cfg of
        None \<Rightarrow> ''warm and engaging''
      | Some g \<Rightarrow> (if g = [] then ''warm and engaging'' else g))"

definition context_str :: "NarrativeContext \<Rightarrow> string" where
  "context_str ctx =
     (if themes ctx \<noteq> []
      then ctx_summary ctx @ newline @ newline @ ''Key themes: ''
             @ join '', '' (map theme (take 3 (themes ctx)))
      else ctx_summary ctx)"

definition generate_section_content :: "MemoirAI option \<Rightarrow> string \<Rightarrow> ContentItem list \<Rightarrow> ProjectionConfig \<Rightarrow> NarrativeContext \<Rightarrow> string" where
  "generate_section_content ai_opt section_topic items cfg ctx =
     (if items = [] then []
      else let texts = extract_texts items in
        if texts = [] then []
        else let raw_content = join (newline @ newline) texts;
                 stub = stub_generate_section section_topic texts cfg
             in (case ai_opt of
                   None \<Rightarrow> stub
                 | Some a \<Rightarrow>
                     (case generate_section a section_topic raw_content (style_guidance cfg)
                             (context_str ctx) (length_map (length_cfg cfg)) of
                        Some result \<Rightarrow> result
                      | None \<Rightarrow> stub)))"

text \<open>
  \<^verbatim>\<open>_evolve_section_content\<close>: the texts of all the content items it is given are
  joined into the \<^verbatim>\<open>new_content\<close> argument of the integrate call.
\<close>

definition evolve_section_content :: "MemoirAI option \<Rightarrow> string \<Rightarrow> string \<Rightarrow> ContentItem list \<Rightarrow> ProjectionConfig \<Rightarrow> NarrativeContext \<Rightarrow> string" where
  "evolve_section_content ai_opt section_topic existing_content items cfg ctx =
     (if items = [] then existing_content
      else let texts = extract_texts items;
               new_content = join (newline @ newline) texts;
               stub = (if existing_content \<noteq> []
                       then existing_content @ newline @ newline @ ''---'' @ newline @ newline
                              @ ''*[New content integrated:]*'' @ newline @ newline
                              @ stub_generate_section section_topic texts cfg
                       else stub_generate_section section_topic texts cfg)
           in (case ai_opt of
                 None \<Rightarrow> stub
               | Some a \<Rightarrow>
                   (if existing_content \<noteq> []
                    then (case regenerate_section a section_topic existing_content new_content
                                 (style_guidance cfg) of
                            Some result \<Rightarrow> result
                          | None \<Rightarrow> stub)
                    else stub)))"

subsection \<open>Narrative context update\<close>

definition theme_of_data :: "string list \<Rightarrow> theme_data \<Rightarrow> DiscoveredTheme option" where
  "theme_of_data ids td =
     (case td of
        ThemeStr n \<Rightarrow>
          Some \<lparr>theme = n, description = [], evidence = [], strength = 1,
                theme_source_content_ids = ids\<rparr>
      | ThemeDict n d \<Rightarrow>
          Some \<lparr>theme = (case n of None \<Rightarrow> [] | Some n' \<Rightarrow> n'),
                description = (case d of None \<Rightarrow> [] | Some d' \<Rightarrow> d'),
                evidence = [], strength = 1, theme_source_content_ids = ids\<rparr>
      | ThemeOther \<Rightarrow> None)"

definition add_theme_data :: "string list \<Rightarrow> NarrativeContext \<Rightarrow> theme_data \<Rightarrow> NarrativeContext" where
  "add_theme_data ids ctx td =
     (case theme_of_data ids td of
        None \<Rightarrow> ctx
      | Some t \<Rightarrow> add_theme lower float_add_tenth t ctx)"

definition add_topic :: "string list \<Rightarrow> string \<Rightarrow> string list" where
  "add_topic topics topic = (if topic \<in> set topics then topics else topics @ [topic])"

definition update_narrative_context :: "MemoirAI option \<Rightarrow> NarrativeContext \<Rightarrow> ContentItem list \<Rightarrow> timestamp \<Rightarrow> NarrativeContext" where
  "update_narrative_context ai_opt ctx new_items now =
     (if new_items = [] then ctx
      else let all_text = join (newline @ newline) (extract_texts new_items);
               ctx1 =
                 (case ai_opt of
                    None \<Rightarrow> ctx
                  | Some a \<Rightarrow>
                      (case extract_themes a all_text (map theme (themes ctx)) of
                         None \<Rightarrow> ctx
                       | Some result \<Rightarrow>
                           (let c1 = foldl (add_theme_data (map item_id new_items)) ctx
                                       (r_themes result);
                                c2 = c1\<lparr>key_facts := key_facts c1 ++ r_key_facts result\<rparr>
                            in c2\<lparr>suggested_topics :=
                                    foldl add_topic (suggested_topics c2)
                                      (r_suggested_topics result)\<rparr>)))
           in context_update now ctx1)"

subsection \<open>Updating sections and projections\<close>

text \<open>
  The content items of a list of ids: the ids missing from the cache are skipped.
\<close>

definition resolve_items :: "ProjectionService \<Rightarrow> string list \<Rightarrow> ContentItem list" where
  "resolve_items svc ids = List.map_filter (content_items svc) ids"

text \<open>
  \<^verbatim>\<open>_update_section\<close> mutates the section it is given and reads the configuration and
  the narrative context of the projection.  When no content items are passed, they are
  looked up from the ids of the project's pool.
\<close>

definition update_section :: "ProjectionService \<Rightarrow> DocumentProjection \<Rightarrow> ProjectedSection \<Rightarrow> UpdateMode
      \<Rightarrow> ContentItem list option \<Rightarrow> timestamp \<Rightarrow> ProjectedSection" where
  "update_section svc projection section mode items_opt now =
     (let items =
            (case items_opt of
               Some its \<Rightarrow> its
             | None \<Rightarrow>
                 (case content_pools svc (project_id projection) of
                    Some pool \<Rightarrow> resolve_items svc (content_ids pool)
                  | None \<Rightarrow> []))
      in case mode of
           REGENERATE \<Rightarrow>
             update_content
               (generate_section_content (ai svc) (title section) items (config projection)
                  (doc_context projection))
               (map item_id items) ''regeneration'' now section
         | EVOLVE \<Rightarrow>
             update_content
               (evolve_section_content (ai svc) (title section) (content section) items
                  (config projection) (doc_context projection))
               (map item_id items) ''evolution'' now section
         | APPEND \<Rightarrow>
             (let new_items = filter (\<lambda>c. item_id c \<notin> set (last_content_snapshot section)) items
              in if new_items \<noteq> []
                 then update_content
                        (content section @ newline @ newline
                           @ generate_section_content (ai svc)
                               (''additional content for '' @ title section) new_items
                               (config projection) (doc_context projection))
                        (map item_id items) ''append'' now section
                 else section)
         | REFRESH \<Rightarrow>
             (if is_stale (map item_id items) section
              then update_content
                     (generate_section_content (ai svc) (title section) items
                        (config projection) (doc_context projection))
                     (map item_id items) ''refresh'' now section
              else section))"

text \<open>
  The candidate test of \<^verbatim>\<open>update_projection\<close>: membership in
  \<^verbatim>\<open>get_regeneratable_sections()\<close> for REGENERATE, in
  \<^verbatim>\<open>get_stale_sections(content_ids)\<close> for the other modes.
\<close>

definition is_candidate :: "UpdateMode \<Rightarrow> string list \<Rightarrow> ProjectedSection \<Rightarrow> bool" where
  "is_candidate mode ids s =
     (case mode of
        REGENERATE \<Rightarrow> can_regenerate s
      | _ \<Rightarrow> can_regenerate s \<and> is_stale ids s)"

definition sections_to_update :: "UpdateMode \<Rightarrow> string list \<Rightarrow> DocumentProjection \<Rightarrow> ProjectedSection list" where
  "sections_to_update mode ids p =
     (case mode of
        REGENERATE \<Rightarrow> get_regeneratable_sections p
      | REFRESH \<Rightarrow> get_stale_sections ids p
      | _ \<Rightarrow> get_stale_sections ids p)"

definition change_summary_of :: "UpdateMode \<Rightarrow> nat \<Rightarrow> nat \<Rightarrow> string" where
  "change_summary_of mode n_sections n_new =
     UpdateMode_value mode @ '': updated '' @ string_of_nat n_sections @ '' sections''
       @ (if n_new > 0 then '' with '' @ string_of_nat n_new @ '' new content items'' else [])"

text \<open>
  \<^verbatim>\<open>update_projection\<close>.  The candidates are selected before any of them is updated,
  and updating one section object touches no other, so the loop over the candidates is
  a map over the section list that rewrites the candidates in place.  The function
  models one call on the state as it is when the call is made (in the source
  \<^verbatim>\<open>mark_updated\<close> stores the pool's own id list as
  \<^verbatim>\<open>content_snapshot_ids\<close>, so that later additions to the pool show in it).
\<close>

definition update_projection :: "ProjectionService \<Rightarrow> DocumentProjection \<Rightarrow> UpdateMode \<Rightarrow> timestamp \<Rightarrow> DocumentProjection" where
  "update_projection svc projection mode now =
     (case content_pools svc (project_id projection) of
        None \<Rightarrow> projection
      | Some pool \<Rightarrow>
          (let ids = get_filtered_ids (contributor_filter (config projection))
                       (tag_filter (config projection)) pool;
               items = resolve_items svc ids;
               new_content_ids = get_new_content_ids (content_snapshot_ids projection) pool;
               p1 = (if new_content_ids \<noteq> []
                     then projection\<lparr>doc_context :=
                            update_narrative_context (ai svc) (doc_context projection)
                              (resolve_items svc new_content_ids) now\<rparr>
                     else projection);
               to_update = sections_to_update mode ids p1;
               p2 = p1\<lparr>sections :=
                         map (\<lambda>s. if is_candidate mode ids s
                                   then update_section svc p1 s mode (Some items) now else s)
                           (sections p1)\<rparr>
           in mark_updated ids mode
                (change_summary_of mode (length to_update) (length new_content_ids)) now p2))"

subsection \<open>Event handlers and the public interface\<close>

datatype pyval = PNone | PBool bool | PInt int | PStr string

datatype error = ValueError

text \<open>
  The enumeration constructors \<^verbatim>\<open>UpdateMode(x)\<close>, \<^verbatim>\<open>ProjectionStyle(x)\<close> and
  \<^verbatim>\<open>ProjectionLength(x)\<close>: the member with that value, and \<^verbatim>\<open>ValueError\<close>
  (here \<open>None\<close>) when there is none.
\<close>

definition UpdateMode_of :: "pyval \<Rightarrow> UpdateMode option" where
  "UpdateMode_of v =
     (case v of
        PStr x \<Rightarrow> find (\<lambda>m. UpdateMode_value m = x) [REGENERATE, EVOLVE, APPEND, REFRESH]
      | _ \<Rightarrow> None)"

definition ProjectionStyle_of :: "pyval \<Rightarrow> ProjectionStyle option" where
  "ProjectionStyle_of v =
     (case v of
        PStr x \<Rightarrow> find (\<lambda>m. ProjectionStyle_value m = x)
                    [CHRONOLOGICAL, THEMATIC, BY_CONTRIBUTOR, QUESTIONS, FREEFORM]
      | _ \<Rightarrow> None)"

definition ProjectionLength_of :: "pyval \<Rightarrow> ProjectionLength option" where
  "ProjectionLength_of v =
     (case v of
        PStr x \<Rightarrow> find (\<lambda>m. ProjectionLength_value m = x) [SUMMARY, STANDARD, COMPREHENSIVE]
      | _ \<Rightarrow> None)"

text \<open>
  The configuration dictionary handed to \<^verbatim>\<open>_parse_config\<close>.  The three enumeration
  entries hold any value (\<open>None\<close>: the key is absent); the entries that are passed on
  unchanged are taken as well-typed.
\<close>

record ConfigDict =
  d_style :: "pyval option"
  d_length :: "pyval option"
  d_default_update_mode :: "pyval option"
  d_auto_update_on_content :: "bool option"
  d_contributor_filter :: "string list option"
  d_tag_filter :: "string list option"
  d_suggested_sections :: "string list option"
  d_voice_guidance :: "string option"

text \<open>
  \<^verbatim>\<open>_parse_config\<close>: each enumeration entry is converted when its value is among the
  values of the enumeration, and replaced by the default otherwise.
\<close>

definition parse_config :: "ConfigDict \<Rightarrow> ProjectionConfig" where
  "parse_config d =
     (let style_v = (case d_style d of None \<Rightarrow> PStr ''thematic'' | Some v \<Rightarrow> v);
          length_v = (case d_length d of None \<Rightarrow> PStr ''standard'' | Some v \<Rightarrow> v);
          mode_v = (case d_default_update_mode d of None \<Rightarrow> PStr ''evolve'' | Some v \<Rightarrow> v)
      in \<lparr>style = (case ProjectionStyle_of style_v of Some x \<Rightarrow> x | None \<Rightarrow> THEMATIC),
          length_cfg = (case ProjectionLength_of length_v of Some x \<Rightarrow> x | None \<Rightarrow> STANDARD),
          default_update_mode = (case UpdateMode_of mode_v of Some x \<Rightarrow> x | None \<Rightarrow> EVOLVE),
          auto_update_on_content =
            (case d_auto_update_on_content d of None \<Rightarrow> False | Some b \<Rightarrow> b),
          contributor_filter = d_contributor_filter d,
          tag_filter = d_tag_filter d,
          suggested_sections = d_suggested_sections d,
          min_sections = 1,
          max_sections = 20,
          voice_guidance = d_voice_guidance d\<rparr>)"

record UpdatePayload =
  p_projection_id :: "string option"
  p_mode :: "pyval option"
  p_section_ids :: "string list option"

record UpdatedEvent =
  ev_event_type :: string
  ev_project_id :: string
  ev_projection_id :: string
  ev_update_mode :: string
  ev_version :: int
  ev_sections_updated :: nat
  ev_sections_locked :: nat
  ev_word_count :: nat

text \<open>
  The section-scoped branch of \<^verbatim>\<open>_handle_update\<close>: for each requested id in turn,
  the first section with that id is updated when it can be regenerated.
\<close>

definition update_section_by_id :: "ProjectionService \<Rightarrow> UpdateMode \<Rightarrow> timestamp \<Rightarrow> DocumentProjection \<Rightarrow> string \<Rightarrow> DocumentProjection" where
  "update_section_by_id svc mode now projection section_id =
     (case get_section section_id projection of
        None \<Rightarrow> projection
      | Some section \<Rightarrow>
          (if can_regenerate section
           then projection\<lparr>sections :=
                  map_section section_id
                    (\<lambda>s. update_section svc projection s mode None now) (sections projection)\<rparr>
           else projection))"

text \<open>
  \<^verbatim>\<open>_handle_update\<close>.  An exception leaves the handler with the service as it is at
  that moment: \<open>Inl\<close> carries the error and that state, \<open>Inr\<close> the state and the
  events of a normal return.
\<close>

definition handle_update :: "ProjectionService \<Rightarrow> UpdatePayload \<Rightarrow> timestamp
      \<Rightarrow> (error \<times> ProjectionService) + (ProjectionService \<times> UpdatedEvent list)" where
  "handle_update svc payload now =
     (let projection_id = (case p_projection_id payload of None \<Rightarrow> [] | Some x \<Rightarrow> x);
          mode_str = (case p_mode payload of None \<Rightarrow> PStr ''evolve'' | Some v \<Rightarrow> v)
      in case projections svc projection_id of
           None \<Rightarrow> Inr (svc, [])
         | Some projection \<Rightarrow>
             (case UpdateMode_of mode_str of
                None \<Rightarrow> Inl (ValueError, svc)
              | Some mode \<Rightarrow>
                  (let p' = (case p_section_ids payload of
                               None \<Rightarrow> update_projection svc projection mode now
                             | Some ids \<Rightarrow>
                                 (if ids \<noteq> []
                                  then foldl (update_section_by_id svc mode now) projection ids
                                  else update_projection svc projection mode now))
                   in Inr (svc\<lparr>projections := (projections svc)(projection_id \<mapsto> p')\<rparr>,
                           [\<lparr>ev_event_type = ''projection.updated'',
                             ev_project_id = project_id p',
                             ev_projection_id = doc_id p',
                             ev_update_mode = UpdateMode_value mode,
                             ev_version = doc_version p',
                             ev_sections_updated = length (get_regeneratable_sections p'),
                             ev_sections_locked = length (get_locked_sections p'),
                             ev_word_count = word_count p'\<rparr>]))))"

definition edit_section :: "ProjectionService \<Rightarrow> string \<Rightarrow> string \<Rightarrow> string \<Rightarrow> bool \<Rightarrow> string option \<Rightarrow> timestamp
      \<Rightarrow> bool \<times> ProjectionService" where
  "edit_section svc projection_id section_id new_content do_lock user_id now =
     (case projections svc projection_id of
        None \<Rightarrow> (False, svc)
      | Some projection \<Rightarrow>
          (case get_section section_id projection of
             None \<Rightarrow> (False, svc)
           | Some _ \<Rightarrow>
               (let p1 = projection\<lparr>sections :=
                           map_section section_id
                             (finish_editing new_content do_lock user_id now)
                             (sections projection)\<rparr>;
                    p2 = update_stats now p1
                in (True, svc\<lparr>projections := (projections svc)(projection_id \<mapsto> p2)\<rparr>))))"

definition revert_section :: "ProjectionService \<Rightarrow> string \<Rightarrow> string \<Rightarrow> int \<Rightarrow> timestamp
      \<Rightarrow> bool \<times> ProjectionService" where
  "revert_section svc projection_id section_id v now =
     (case projections svc projection_id of
        None \<Rightarrow> (False, svc)
      | Some projection \<Rightarrow>
          (case get_section section_id projection of
             None \<Rightarrow> (False, svc)
           | Some section \<Rightarrow>
               (let p1 = projection\<lparr>sections :=
                           map_section section_id (\<lambda>s. snd (revert_to_version v now s))
                             (sections projection)\<rparr>
                in (fst (revert_to_version v now section),
                    svc\<lparr>projections := (projections svc)(projection_id \<mapsto> p1)\<rparr>))))"

definition new_pool :: "string \<Rightarrow> timestamp \<Rightarrow> ContentPool" where
  "new_pool pid now =
     \<lparr>pool_project_id = pid, content_ids = [], pool_contributor_ids = {}, tags = {},
      total_items = 0, last_updated = now\<rparr>"

definition get_or_create_pool :: "ProjectionService \<Rightarrow> string \<Rightarrow> timestamp \<Rightarrow> ProjectionService \<times> ContentPool" where
  "get_or_create_pool svc pid now =
     (case content_pools svc pid of
        Some pool \<Rightarrow> (svc, pool)
      | None \<Rightarrow> (svc\<lparr>content_pools := (content_pools svc)(pid \<mapsto> new_pool pid now)\<rparr>,
                 new_pool pid now))"

text \<open>Fetch or create the pool of a project and add a content id to it.\<close>

definition pool_add :: "ProjectionService \<Rightarrow> string \<Rightarrow> string \<Rightarrow> string \<Rightarrow> string list \<Rightarrow> timestamp \<Rightarrow> ProjectionService" where
  "pool_add svc pid content_id contributor_id tgs now =
     (case get_or_create_pool svc pid now of
        (svc1, pool) \<Rightarrow>
          svc1\<lparr>content_pools :=
                 (content_pools svc1)(pid \<mapsto> add_content content_id contributor_id tgs now pool)\<rparr>)"

definition add_content_item :: "ProjectionService \<Rightarrow> ContentItem \<Rightarrow> timestamp \<Rightarrow> ProjectionService" where
  "add_content_item svc item now =
     pool_add (svc\<lparr>content_items := (content_items svc)(item_id item \<mapsto> item)\<rparr>)
       (item_project_id item) (item_id item) (item_contributor_id item) (item_tags item) now"

datatype content_event = AutoUpdated string string string | ContentAdded string string

text \<open>
  \<^verbatim>\<open>_handle_content_created\<close>: the id is added to the pool of the project (the content
  item cache is not touched), and every projection of the project is either updated in
  its default mode or reported as possibly stale.
\<close>

definition content_created_step :: "string \<Rightarrow> timestamp \<Rightarrow> ProjectionService \<times> content_event list \<Rightarrow> string
      \<Rightarrow> ProjectionService \<times> content_event list" where
  "content_created_step content_id now acc proj_id =
     (case acc of (svc, events) \<Rightarrow>
        (case projections svc proj_id of
           Some projection \<Rightarrow>
             (if auto_update_on_content (config projection)
              then (svc\<lparr>projections := (projections svc)(proj_id \<mapsto>
                            update_projection svc projection
                              (default_update_mode (config projection)) now)\<rparr>,
                    events @ [AutoUpdated proj_id
                                (UpdateMode_value (default_update_mode (config projection)))
                                content_id])
              else (svc, events @ [ContentAdded proj_id content_id]))
         | None \<Rightarrow> (svc, events @ [ContentAdded proj_id content_id])))"

definition handle_content_created :: "ProjectionService \<Rightarrow> string \<Rightarrow> string \<Rightarrow> string \<Rightarrow> string list \<Rightarrow> timestamp
      \<Rightarrow> ProjectionService \<times> content_event list" where
  "handle_content_created svc pid content_id contributor_id tgs now =
     (let svc1 = pool_add svc pid content_id contributor_id tgs now;
          projection_ids = (case project_projections svc1 pid of None \<Rightarrow> [] | Some l \<Rightarrow> l)
      in foldl (content_created_step content_id now) (svc1, []) projection_ids)"

section \<open>Sequences of mutations\<close>






section \<open>Concrete states\<close>

text \<open>
  A small project used to run the operations: a section with one earlier version in its
  history, a locked copy of it, a projection holding both, two content items and the
  service states built from them.
\<close>

definition ex_old_version :: SectionVersion where
  "ex_old_version =
     \<lparr>sv_version = 1, sv_content = ''old story'', sv_summary = ''old'',
      sv_trigger = ''generation'', sv_source_content_ids = [''c0''],
      sv_created_at = 0, sv_created_by = None\<rparr>"

definition ex_section :: ProjectedSection where
  "ex_section =
     \<lparr>sec_id = ''sec_a'', title = ''Family'', content = ''one two three'',
      summary = ''now'', source_content_ids = [''c1''], contributor_ids = [],
      state = GENERATED, generated_at = None, locked_at = None, locked_by = None,
      lock_reason = None, order_index = 0, version = 2, history = [ex_old_version],
      last_content_snapshot = [''c1'']\<rparr>"

definition ex_locked_section :: ProjectedSection where
  "ex_locked_section =
     ex_section\<lparr>sec_id := ''sec_b'', title := ''Career'', state := LOCKED,
                locked_by := Some ''user1'', lock_reason := Some ''approved'',
                order_index := 1\<rparr>"

definition ex_blank_section :: ProjectedSection where
  "ex_blank_section = ex_section\<lparr>content := []\<rparr>"

definition ex_config :: ProjectionConfig where
  "ex_config =
     \<lparr>style = THEMATIC, length_cfg = STANDARD, default_update_mode = EVOLVE,
      auto_update_on_content = False, contributor_filter = None, tag_filter = None,
      suggested_sections = None, min_sections = 1, max_sections = 20,
      voice_guidance = None\<rparr>"

definition ex_context :: NarrativeContext where
  "ex_context =
     \<lparr>ctx_summary = [], key_facts = Map.empty, themes = [], suggested_topics = [],
      covered_topics = [], emotional_tone = ''neutral'', voice_notes = [],
      ctx_updated_at = 0\<rparr>"

definition ex_projection :: DocumentProjection where
  "ex_projection =
     \<lparr>doc_id = ''doc_1'', project_id = ''proj1'', name = ''Full Memoir'',
      sections = [ex_section, ex_locked_section], config = ex_config,
      doc_context = ex_context, doc_version = 2, version_history = [],
      created_at = 0, updated_at = 0, last_regenerated = None,
      content_snapshot_ids = [''c1''], word_count = 6\<rparr>"

definition ex_item1 :: ContentItem where
  "ex_item1 =
     \<lparr>item_id = ''c1'', item_project_id = ''proj1'', item_contributor_id = ''u1'',
      answer_text = None, question_text = None, text_payload = Some ''first memory'',
      item_tags = []\<rparr>"

definition ex_item2 :: ContentItem where
  "ex_item2 =
     \<lparr>item_id = ''c2'', item_project_id = ''proj1'', item_contributor_id = ''u1'',
      answer_text = None, question_text = None, text_payload = Some ''second memory'',
      item_tags = []\<rparr>"

text \<open>A service that holds the projection and nothing else.\<close>

definition ex_service_empty :: ProjectionService where
  "ex_service_empty =
     \<lparr>content_pools = Map.empty, projections = [''doc_1'' \<mapsto> ex_projection],
      project_projections = [''proj1'' \<mapsto> [''doc_1'']], content_items = Map.empty,
      ai = None\<rparr>"

text \<open>The same service after both items have been added with \<^verbatim>\<open>add_content_item\<close>.\<close>

definition ex_service :: ProjectionService where
  "ex_service = add_content_item (add_content_item ex_service_empty ex_item1 1) ex_item2 2"

text \<open>
  A synthesis capability whose integrate call returns the new raw content it was given.
\<close>

definition ex_echo_ai :: MemoirAI where
  "ex_echo_ai =
     \<lparr>generate_section = (\<lambda>title content style ctx len. Some content),
      regenerate_section = (\<lambda>title existing_content new_content style. Some new_content),
      extract_themes = (\<lambda>content existing_themes. None)\<rparr>"

text \<open>
  The service after a further \<^verbatim>\<open>content.created\<close> event, for an id that was never
  added with \<^verbatim>\<open>add_content_item\<close>: the pool knows the id, the content item cache
  does not.
\<close>

definition ex_service_uncached :: ProjectionService where
  "ex_service_uncached = fst (handle_content_created ex_service ''proj1'' ''c9'' ''u1'' [] 5)"

text \<open>The pool of the project once both items have been added.\<close>

definition ex_pool :: ContentPool where
  "ex_pool =
     \<lparr>pool_project_id = ''proj1'', content_ids = [''c1'', ''c2''],
      pool_contributor_ids = {''u1''}, tags = {}, total_items = 2, last_updated = 2\<rparr>"

text \<open>A configuration dictionary with three unknown enumeration values.\<close>

definition ex_bad_config :: ConfigDict where
  "ex_bad_config =
     \<lparr>d_style = Some (PStr ''sonnet''), d_length = Some (PStr ''epic''),
      d_default_update_mode = Some (PStr ''rewrite''), d_auto_update_on_content = None,
      d_contributor_filter = None, d_tag_filter = None, d_suggested_sections = None,
      d_voice_guidance = None\<rparr>"





section \<open>Basic facts about the operations\<close>




lemma version_save_to_history [simp]: "version (save_to_history t u now s) = version s"
  by (simp add: save_to_history_def Let_def)



lemma sections_mark_updated [simp]: "sections (mark_updated ids mode cs now p) = sections p"
  by (simp add: mark_updated_def save_version_def update_stats_def Let_def)

lemma sections_to_update_filter:
  "sections_to_update mode ids p = filter (is_candidate mode ids) (sections p)"
  by (cases mode)
     (simp_all add: sections_to_update_def is_candidate_def [abs_def]
        get_regeneratable_sections_def get_stale_sections_def)

lemma sections_update_projection:
  "sections (update_projection svc p mode now) =
     (case content_pools svc (project_id p) of
        None \<Rightarrow> sections p
      | Some pool \<Rightarrow>
          map (\<lambda>s. if is_candidate mode (content_ids pool) s
                    then update_section svc
                           (if get_new_content_ids (content_snapshot_ids p) pool \<noteq> []
                            then p\<lparr>doc_context :=
                                     update_narrative_context (ai svc) (doc_context p)
                                       (resolve_items svc
                                          (get_new_content_ids (content_snapshot_ids p) pool)) now\<rparr>
                            else p)
                           s mode (Some (resolve_items svc (content_ids pool))) now
                    else s)
            (sections p))"
  by (simp add: update_projection_def Let_def get_filtered_ids_def split: option.splits)

lemma length_map_section [simp]: "length (map_section sid f secs) = length secs"
  by (induction secs) simp_all

lemma ex_service_projection: "projections ex_service ''doc_1'' = Some ex_projection"
  by (simp add: ex_service_def add_content_item_def pool_add_def get_or_create_pool_def
      ex_service_empty_def ex_item1_def ex_item2_def Let_def)

section \<open>Lock inviolability\<close>

lemma locked_not_candidate: "state s = LOCKED \<Longrightarrow> \<not> is_candidate mode ids s"
  by (cases mode) (simp_all add: is_candidate_def can_regenerate_def)

lemma map_section_other:
  assumes "find (\<lambda>s. sec_id s = sid) secs = Some sec" and "can_regenerate sec"
    and "i < length secs" and "state (secs ! i) = LOCKED"
  shows "map_section sid f secs ! i = secs ! i"
  using assms
proof (induction secs arbitrary: i)
  case Nil
  then show ?case by simp
next
  case (Cons a rest)
  show ?case
  proof (cases "sec_id a = sid")
    case True
    with Cons.prems have "a = sec" by simp
    with Cons.prems have "i \<noteq> 0" by (cases i) (auto simp: can_regenerate_def)
    with True show ?thesis by (cases i) simp_all
  next
    case False
    with Cons show ?thesis by (cases i) simp_all
  qed
qed

lemma update_section_by_id_locked:
  assumes "i < length (sections p)" and "state (sections p ! i) = LOCKED"
  shows "length (sections (update_section_by_id svc mode now p sid)) = length (sections p) \<and>
         sections (update_section_by_id svc mode now p sid) ! i = sections p ! i"
  using assms
  by (auto simp: update_section_by_id_def get_section_def map_section_other split: option.splits)

lemma foldl_update_section_by_id_locked:
  assumes "i < length (sections p)" and "state (sections p ! i) = LOCKED"
  shows "length (sections (foldl (update_section_by_id svc mode now) p sids)) = length (sections p) \<and>
         sections (foldl (update_section_by_id svc mode now) p sids) ! i = sections p ! i"
  using assms
proof (induction sids arbitrary: p)
  case Nil
  then show ?case by simp
next
  case (Cons sid sids)
  let ?q = "update_section_by_id svc mode now p sid"
  from Cons.prems have q: "length (sections ?q) = length (sections p)" "sections ?q ! i = sections p ! i"
    using update_section_by_id_locked [of i p svc mode now sid] by simp_all
  with Cons.prems have "i < length (sections ?q)" "state (sections ?q ! i) = LOCKED" by simp_all
  from Cons.IH [OF this] q show ?case by simp
qed

text \<open>
  C1.  Whatever the mode, \<^verbatim>\<open>update_projection\<close> leaves a section whose state is LOCKED
  as it was: the section list keeps its length, the locked section stays at its
  position with the same content, summary and version (indeed the whole section is
  unchanged), and it is not among the sections selected for re-synthesis, for any list
  of content ids the selection is made against.  The same holds for the section-scoped
  loop of \<^verbatim>\<open>_handle_update\<close>.
\<close>

theorem lock_inviolability:
  assumes "i < length (sections p)" and "state (sections p ! i) = LOCKED"
  shows "length (sections (update_projection svc p mode now)) = length (sections p) \<and>
         sections (update_projection svc p mode now) ! i = sections p ! i \<and>
         content (sections (update_projection svc p mode now) ! i) = content (sections p ! i) \<and>
         summary (sections (update_projection svc p mode now) ! i) = summary (sections p ! i) \<and>
         version (sections (update_projection svc p mode now) ! i) = version (sections p ! i) \<and>
         sections p ! i \<notin> set (sections_to_update mode ids p) \<and>
         sections (foldl (update_section_by_id svc mode now) p sids) ! i = sections p ! i"
proof -
  have nc: "\<not> is_candidate mode ids' (sections p ! i)" for ids'
    using assms(2) by (rule locked_not_candidate)
  have len: "length (sections (update_projection svc p mode now)) = length (sections p)"
    by (simp add: sections_update_projection split: option.splits)
  have same: "sections (update_projection svc p mode now) ! i = sections p ! i"
    using assms(1) nc by (simp add: sections_update_projection split: option.splits)
  have notsel: "sections p ! i \<notin> set (sections_to_update mode ids p)"
    using nc by (simp add: sections_to_update_filter)
  have scoped: "sections (foldl (update_section_by_id svc mode now) p sids) ! i = sections p ! i"
    using foldl_update_section_by_id_locked [OF assms] by simp
  from len same notsel scoped show ?thesis by simp
qed

theorem lock_inviolability_witness:
  "1 < length (sections ex_projection) \<and> state (sections ex_projection ! 1) = LOCKED \<and>
   content (sections (update_projection ex_service ex_projection REGENERATE 3) ! 1)
     = ''one two three'' \<and>
   summary (sections (update_projection ex_service ex_projection REGENERATE 3) ! 1) = ''now'' \<and>
   version (sections (update_projection ex_service ex_projection REGENERATE 3) ! 1) = 2"
proof -
  have h1: "1 < length (sections ex_projection)"
    by (simp add: ex_projection_def)
  have h2: "state (sections ex_projection ! 1) = LOCKED"
    by (simp add: ex_projection_def ex_locked_section_def)
  have "sections (update_projection ex_service ex_projection REGENERATE 3) ! 1
          = sections ex_projection ! 1"
    using lock_inviolability [OF h1 h2] by blast
  with h1 h2 show ?thesis
    by (simp add: ex_projection_def ex_locked_section_def ex_section_def)
qed

section \<open>Bounded histories\<close>







section \<open>Versions\<close>

text \<open>
  C4.  \<^verbatim>\<open>update_content\<close>, \<^verbatim>\<open>finish_editing\<close> and a successful
  \<^verbatim>\<open>revert_to_version\<close> each raise the version of the section by exactly 1, and
  \<^verbatim>\<open>mark_updated\<close> raises the version of the projection by exactly 1.
\<close>

theorem version_monotonicity:
  "version (update_content c ids t now s) = version s + 1 \<and>
   version (finish_editing c l u now s) = version s + 1 \<and>
   (fst (revert_to_version v now s) \<longrightarrow>
      version (snd (revert_to_version v now s)) = version s + 1) \<and>
   doc_version (mark_updated cids m cs now p) = doc_version p + 1"
  by (simp add: update_content_def finish_editing_def revert_to_version_def mark_updated_def
      save_version_def update_stats_def Let_def split: option.splits)

theorem version_monotonicity_witness:
  "fst (revert_to_version 1 5 ex_section) \<and>
   version (snd (revert_to_version 1 5 ex_section)) = 3 \<and>
   version (update_content ''new text'' [''c1'', ''c2''] ''regeneration'' 5 ex_section) = 3 \<and>
   version (finish_editing ''edited'' False None 5 ex_section) = 3 \<and>
   doc_version (mark_updated [''c1'', ''c2''] EVOLVE ''evolve'' 5 ex_projection) = 3"
proof -
  have h: "fst (revert_to_version 1 5 ex_section)"
    by (simp add: revert_to_version_def ex_section_def ex_old_version_def Let_def)
  have v: "version ex_section = 2" "doc_version ex_projection = 2"
    by (simp_all add: ex_section_def ex_projection_def)
  from version_monotonicity [where c = "''new text''" and ids = "[''c1'', ''c2'']"
      and t = "''regeneration''" and now = 5 and s = ex_section and v = 1
      and cids = "[''c1'', ''c2'']" and m = EVOLVE and cs = "''evolve''" and p = ex_projection] h v
  have "version (update_content ''new text'' [''c1'', ''c2''] ''regeneration'' 5 ex_section) = 3"
    and "version (snd (revert_to_version 1 5 ex_section)) = 3"
    and "doc_version (mark_updated [''c1'', ''c2''] EVOLVE ''evolve'' 5 ex_projection) = 3"
    by simp_all
  moreover from version_monotonicity [where c = "''edited''" and l = False and u = None
      and now = 5 and s = ex_section] v
  have "version (finish_editing ''edited'' False None 5 ex_section) = 3"
    by simp
  ultimately show ?thesis using h by simp
qed

section \<open>Reverting a section\<close>

lemma find_version_cases:
  "v \<in> sv_version ` set hs \<Longrightarrow>
     \<exists>hist \<in> set hs. sv_version hist = v \<and> find (\<lambda>h. sv_version h = v) hs = Some hist"
  by (induction hs) auto

text \<open>
  C5 (amended).  \<^verbatim>\<open>revert_to_version(n)\<close> returns \<open>False\<close> and leaves the section
  unchanged when no history entry has version \<open>n\<close>.  Otherwise it takes the first
  entry with that version, saves the current state to the history when the current
  content is not empty (keeping the last 10 entries; with empty content nothing is
  pushed), restores the content, summary and source content ids of the entry, and
  raises the version by 1; nothing else changes.
\<close>

theorem revert_semantics:
  "(v \<notin> sv_version ` set (history s) \<longrightarrow> revert_to_version v now s = (False, s)) \<and>
   (v \<in> sv_version ` set (history s) \<longrightarrow>
      (\<exists>hist \<in> set (history s). sv_version hist = v \<and>
         find (\<lambda>h. sv_version h = v) (history s) = Some hist \<and>
         revert_to_version v now s =
           (True, s\<lparr>history := (if content s = [] then history s
                                 else keep_last 10
                                        (history s @ [current_snapshot ''revert'' None now s])),
                    content := sv_content hist, summary := sv_summary hist,
                    source_content_ids := sv_source_content_ids hist,
                    version := version s + 1\<rparr>)))"
proof (intro conjI impI)
  assume "v \<notin> sv_version ` set (history s)"
  then have "find (\<lambda>h. sv_version h = v) (history s) = None"
    by (auto simp: find_None_iff)
  then show "revert_to_version v now s = (False, s)"
    by (simp add: revert_to_version_def)
next
  assume "v \<in> sv_version ` set (history s)"
  then obtain hist where h: "hist \<in> set (history s)" "sv_version hist = v"
      "find (\<lambda>h. sv_version h = v) (history s) = Some hist"
    using find_version_cases by blast
  have "revert_to_version v now s =
           (True, s\<lparr>history := (if content s = [] then history s
                                 else keep_last 10
                                        (history s @ [current_snapshot ''revert'' None now s])),
                    content := sv_content hist, summary := sv_summary hist,
                    source_content_ids := sv_source_content_ids hist,
                    version := version s + 1\<rparr>)"
    using h(3) by (simp add: revert_to_version_def save_to_history_def Let_def keep_last_def)
  with h show "\<exists>hist \<in> set (history s). sv_version hist = v \<and>
         find (\<lambda>h. sv_version h = v) (history s) = Some hist \<and>
         revert_to_version v now s =
           (True, s\<lparr>history := (if content s = [] then history s
                                 else keep_last 10
                                        (history s @ [current_snapshot ''revert'' None now s])),
                    content := sv_content hist, summary := sv_summary hist,
                    source_content_ids := sv_source_content_ids hist,
                    version := version s + 1\<rparr>)"
    by blast
qed

theorem revert_semantics_witness:
  "1 \<in> sv_version ` set (history ex_section) \<and> 9 \<notin> sv_version ` set (history ex_section) \<and>
   revert_to_version 9 5 ex_section = (False, ex_section) \<and>
   fst (revert_to_version 1 5 ex_section) \<and>
   content (snd (revert_to_version 1 5 ex_section)) = ''old story'' \<and>
   summary (snd (revert_to_version 1 5 ex_section)) = ''old'' \<and>
   source_content_ids (snd (revert_to_version 1 5 ex_section)) = [''c0''] \<and>
   version (snd (revert_to_version 1 5 ex_section)) = 3 \<and>
   history (snd (revert_to_version 1 5 ex_section))
     = [ex_old_version, current_snapshot ''revert'' None 5 ex_section]"
proof -
  have h1: "1 \<in> sv_version ` set (history ex_section)"
    by (simp add: ex_section_def ex_old_version_def)
  have h2: "9 \<notin> sv_version ` set (history ex_section)"
    by (simp add: ex_section_def ex_old_version_def)
  have nf: "revert_to_version 9 5 ex_section = (False, ex_section)"
    using revert_semantics [of 9 ex_section 5] h2 by blast
  from revert_semantics [of 1 ex_section 5] h1
  obtain hist where h: "hist \<in> set (history ex_section)"
     and r: "revert_to_version 1 5 ex_section =
           (True, ex_section\<lparr>history := (if content ex_section = [] then history ex_section
                                 else keep_last 10
                                        (history ex_section @ [current_snapshot ''revert'' None 5 ex_section])),
                    content := sv_content hist, summary := sv_summary hist,
                    source_content_ids := sv_source_content_ids hist,
                    version := version ex_section + 1\<rparr>)"
    by blast
  from h have "hist = ex_old_version" by (simp add: ex_section_def)
  with r h1 h2 nf show ?thesis
    by (simp add: ex_section_def ex_old_version_def keep_last_def)
qed

text \<open>
  The claim as stated fails for a section whose current content is empty: the revert
  succeeds, yet the history is unchanged and holds no snapshot of the state reverted
  from.
\<close>

theorem revert_blank_counterexample:
  "content ex_blank_section = [] \<and>
   fst (revert_to_version 1 7 ex_blank_section) \<and>
   history (snd (revert_to_version 1 7 ex_blank_section)) = history ex_blank_section \<and>
   current_snapshot ''revert'' None 7 ex_blank_section
     \<notin> set (history (snd (revert_to_version 1 7 ex_blank_section)))"
  by (simp add: ex_blank_section_def ex_section_def ex_old_version_def revert_to_version_def
      save_to_history_def current_snapshot_def Let_def)

section \<open>Merging themes\<close>



lemma theme_merge_theme [simp]: "theme (merge_theme ad e t) = theme e"
  by (simp add: merge_theme_def)






section \<open>Staleness\<close>

lemma is_stale_symmetric_difference:
  "is_stale ids s =
     ((set ids - set (last_content_snapshot s)) \<union> (set (last_content_snapshot s) - set ids) \<noteq> {})"
  by (auto simp: is_stale_def)

lemma snapshot_update_content [simp]:
  "last_content_snapshot (update_content c ids t now s) = ids"
  by (simp add: update_content_def Let_def)

lemma not_stale_after_regenerate:
  "\<not> is_stale (map item_id items) (update_section svc p s REGENERATE (Some items) now)"
  by (simp add: update_section_def is_stale_def)

lemma not_stale_after_refresh:
  "\<not> is_stale (map item_id items) (update_section svc p s REFRESH (Some items) now)"
  by (simp add: update_section_def is_stale_def)

lemma map_filter_Cons:
  "List.map_filter f (x # xs) =
     (case f x of None \<Rightarrow> List.map_filter f xs | Some y \<Rightarrow> y # List.map_filter f xs)"
  by (simp add: List.map_filter_def split: option.splits)

lemma resolve_items_ids:
  assumes "\<forall>cid \<in> set ids. \<exists>it. content_items svc cid = Some it \<and> item_id it = cid"
  shows "map item_id (resolve_items svc ids) = ids"
  using assms unfolding resolve_items_def
  by (induction ids) (auto simp: map_filter_Cons List.map_filter_simps)

lemma ex_service_pool: "content_pools ex_service ''proj1'' = Some ex_pool"
  by (simp add: ex_service_def add_content_item_def pool_add_def get_or_create_pool_def
      ex_service_empty_def ex_item1_def ex_item2_def add_content_def new_pool_def ex_pool_def)

lemma ex_service_items: "content_items ex_service = [''c1'' \<mapsto> ex_item1, ''c2'' \<mapsto> ex_item2]"
  by (simp add: ex_service_def add_content_item_def pool_add_def get_or_create_pool_def
      ex_service_empty_def ex_item1_def ex_item2_def add_content_def new_pool_def)

lemma ex_service_project_projections: "project_projections ex_service ''proj1'' = Some [''doc_1'']"
  by (simp add: ex_service_def add_content_item_def pool_add_def get_or_create_pool_def
      ex_service_empty_def Let_def)

lemma ex_service_uncached_eq:
  "ex_service_uncached =
     ex_service\<lparr>content_pools :=
        (content_pools ex_service)(''proj1'' \<mapsto> add_content ''c9'' ''u1'' [] 5 ex_pool)\<rparr>"
  by (simp add: ex_service_uncached_def handle_content_created_def pool_add_def
      get_or_create_pool_def ex_service_pool ex_service_project_projections
      content_created_step_def ex_service_projection ex_projection_def ex_config_def Let_def)

lemma ex_uncached_pool:
  "content_pools ex_service_uncached ''proj1'' = Some (add_content ''c9'' ''u1'' [] 5 ex_pool)"
  by (simp add: ex_service_uncached_eq)

lemma ex_uncached_ids:
  "content_ids (add_content ''c9'' ''u1'' [] 5 ex_pool) = [''c1'', ''c2'', ''c9'']"
  by (simp add: add_content_def ex_pool_def)

lemma resolve_uncached:
  "resolve_items ex_service_uncached [''c1'', ''c2'', ''c9''] = [ex_item1, ex_item2]"
  by (simp add: resolve_items_def ex_service_uncached_eq ex_service_items List.map_filter_simps)

text \<open>
  The second half of the claim as stated fails when the pool holds an id the content
  item cache does not (as after a \<^verbatim>\<open>content.created\<close> event): REGENERATE touches
  the section, records the ids of the resolved items only, and the section is stale
  against the pool's filtered ids straight away.
\<close>

theorem stale_after_regenerate_counterexample:
  "content_pools ex_service_uncached ''proj1'' = Some (add_content ''c9'' ''u1'' [] 5 ex_pool) \<and>
   get_filtered_ids None None (add_content ''c9'' ''u1'' [] 5 ex_pool) = [''c1'', ''c2'', ''c9''] \<and>
   version (sections ex_projection ! 0) = 2 \<and>
   version (sections (update_projection ex_service_uncached ex_projection REGENERATE 6) ! 0) = 3 \<and>
   last_content_snapshot
     (sections (update_projection ex_service_uncached ex_projection REGENERATE 6) ! 0)
     = [''c1'', ''c2''] \<and>
   is_stale [''c1'', ''c2'', ''c9'']
     (sections (update_projection ex_service_uncached ex_projection REGENERATE 6) ! 0)"
proof -
  let ?q = "if get_new_content_ids (content_snapshot_ids ex_projection)
                 (add_content ''c9'' ''u1'' [] 5 ex_pool) \<noteq> []
            then ex_projection\<lparr>doc_context :=
                   update_narrative_context (ai ex_service_uncached) (doc_context ex_projection)
                     (resolve_items ex_service_uncached
                        (get_new_content_ids (content_snapshot_ids ex_projection)
                           (add_content ''c9'' ''u1'' [] 5 ex_pool))) 6\<rparr>
            else ex_projection"
  have pid: "project_id ex_projection = ''proj1''"
    by (simp add: ex_projection_def)
  have s0: "sections ex_projection ! 0 = ex_section" "0 < length (sections ex_projection)"
    by (simp_all add: ex_projection_def)
  have cand: "is_candidate REGENERATE [''c1'', ''c2'', ''c9''] ex_section"
    by (simp add: is_candidate_def can_regenerate_def ex_section_def)
  have sec: "sections (update_projection ex_service_uncached ex_projection REGENERATE 6) ! 0
        = update_section ex_service_uncached ?q ex_section REGENERATE
            (Some [ex_item1, ex_item2]) 6"
    using s0 cand
    by (simp add: sections_update_projection pid ex_uncached_pool ex_uncached_ids
        resolve_uncached del: update_narrative_context_def)
  have snap: "last_content_snapshot (update_section ex_service_uncached ?q ex_section REGENERATE
            (Some [ex_item1, ex_item2]) 6) = [''c1'', ''c2'']"
    by (simp add: update_section_def ex_item1_def ex_item2_def)
  have ver: "version (update_section ex_service_uncached ?q ex_section REGENERATE
            (Some [ex_item1, ex_item2]) 6) = 3"
    by (simp add: update_section_def update_content_def Let_def ex_section_def)
  have stale: "is_stale [''c1'', ''c2'', ''c9''] (update_section ex_service_uncached ?q ex_section
            REGENERATE (Some [ex_item1, ex_item2]) 6)"
  proof -
    have "set [''c1'', ''c2'', ''c9''] \<noteq> set [''c1'', ''c2'']"
    proof
      assume "set [''c1'', ''c2'', ''c9''] = set [''c1'', ''c2'']"
      moreover have "''c9'' \<in> set [''c1'', ''c2'', ''c9'']" by simp
      ultimately have "''c9'' \<in> set [''c1'', ''c2'']" by (simp only:)
      then show False by simp
    qed
    with snap show ?thesis by (simp add: is_stale_def)
  qed
  have v0: "version (sections ex_projection ! 0) = 2"
    by (simp add: ex_projection_def ex_section_def)
  from sec snap ver stale v0 ex_uncached_pool ex_uncached_ids show ?thesis
    by (simp add: get_filtered_ids_def)
qed

text \<open>
  C7 (amended).  \<^verbatim>\<open>is_stale\<close> holds exactly when the symmetric difference of the
  given ids and the last content snapshot is not empty.  After \<^verbatim>\<open>_update_section\<close>
  in mode REGENERATE or REFRESH the section is not stale against the ids of the content
  items the call was given.  In \<^verbatim>\<open>update_projection\<close> these are the pool's filtered
  ids whenever every id of the pool resolves to a cached item carrying that id; then
  every candidate of a REGENERATE or REFRESH pass is not stale against the filtered ids
  afterwards.
\<close>

theorem staleness_correctness:
  "is_stale ids s =
     ((set ids - set (last_content_snapshot s)) \<union> (set (last_content_snapshot s) - set ids) \<noteq> {}) \<and>
   \<not> is_stale (map item_id items) (update_section svc p s REGENERATE (Some items) now) \<and>
   \<not> is_stale (map item_id items) (update_section svc p s REFRESH (Some items) now) \<and>
   (content_pools svc (project_id p) = Some pool \<and>
    (\<forall>cid \<in> set (content_ids pool). \<exists>it. content_items svc cid = Some it \<and> item_id it = cid) \<and>
    (mode = REGENERATE \<or> mode = REFRESH) \<and>
    i < length (sections p) \<and> is_candidate mode (content_ids pool) (sections p ! i) \<longrightarrow>
      \<not> is_stale (get_filtered_ids (contributor_filter (config p)) (tag_filter (config p)) pool)
          (sections (update_projection svc p mode now) ! i))"
proof (intro conjI impI)
  show "is_stale ids s =
     ((set ids - set (last_content_snapshot s)) \<union> (set (last_content_snapshot s) - set ids) \<noteq> {})"
    by (rule is_stale_symmetric_difference)
  show "\<not> is_stale (map item_id items) (update_section svc p s REGENERATE (Some items) now)"
    by (rule not_stale_after_regenerate)
  show "\<not> is_stale (map item_id items) (update_section svc p s REFRESH (Some items) now)"
    by (rule not_stale_after_refresh)
next
  assume a: "content_pools svc (project_id p) = Some pool \<and>
    (\<forall>cid \<in> set (content_ids pool). \<exists>it. content_items svc cid = Some it \<and> item_id it = cid) \<and>
    (mode = REGENERATE \<or> mode = REFRESH) \<and>
    i < length (sections p) \<and> is_candidate mode (content_ids pool) (sections p ! i)"
  then have r: "map item_id (resolve_items svc (content_ids pool)) = content_ids pool"
    using resolve_items_ids [of "content_ids pool" svc] by blast
  let ?q = "if get_new_content_ids (content_snapshot_ids p) pool \<noteq> []
            then p\<lparr>doc_context := update_narrative_context (ai svc) (doc_context p)
                     (resolve_items svc (get_new_content_ids (content_snapshot_ids p) pool)) now\<rparr>
            else p"
  from a have sec: "sections (update_projection svc p mode now) ! i
      = update_section svc ?q (sections p ! i) mode (Some (resolve_items svc (content_ids pool))) now"
    by (simp add: sections_update_projection)
  from a have "\<not> is_stale (map item_id (resolve_items svc (content_ids pool)))
      (update_section svc ?q (sections p ! i) mode (Some (resolve_items svc (content_ids pool))) now)"
    using not_stale_after_regenerate not_stale_after_refresh by blast
  with r sec show "\<not> is_stale (get_filtered_ids (contributor_filter (config p)) (tag_filter (config p)) pool)
          (sections (update_projection svc p mode now) ! i)"
    by (simp add: get_filtered_ids_def)
qed

theorem staleness_correctness_witness:
  "content_pools ex_service (project_id ex_projection) = Some ex_pool \<and>
   content_ids ex_pool = [''c1'', ''c2''] \<and>
   map_option item_id (content_items ex_service ''c1'') = Some ''c1'' \<and>
   map_option item_id (content_items ex_service ''c2'') = Some ''c2'' \<and>
   0 < length (sections ex_projection) \<and>
   is_candidate REFRESH (content_ids ex_pool) (sections ex_projection ! 0) \<and>
   is_stale [''c1'', ''c2''] (sections ex_projection ! 0) \<and>
   \<not> is_stale [''c1'', ''c2''] (sections (update_projection ex_service ex_projection REFRESH 3) ! 0)"
proof -
  have h1: "content_pools ex_service (project_id ex_projection) = Some ex_pool"
    by (simp add: ex_projection_def ex_service_pool)
  have h2: "\<forall>cid \<in> set (content_ids ex_pool).
       \<exists>it. content_items ex_service cid = Some it \<and> item_id it = cid"
    by (simp add: ex_pool_def ex_service_items ex_item1_def ex_item2_def)
  have h3: "0 < length (sections ex_projection)"
    by (simp add: ex_projection_def)
  have st: "is_stale [''c1'', ''c2''] (sections ex_projection ! 0)"
    by (simp add: ex_projection_def ex_section_def is_stale_def)
  have ids: "content_ids ex_pool = [''c1'', ''c2'']"
    by (simp add: ex_pool_def)
  have h4: "is_candidate REFRESH (content_ids ex_pool) (sections ex_projection ! 0)"
    using st by (simp add: ids is_candidate_def can_regenerate_def)
       (simp add: ex_projection_def ex_section_def)
  have "\<not> is_stale (get_filtered_ids (contributor_filter (config ex_projection))
                      (tag_filter (config ex_projection)) ex_pool)
          (sections (update_projection ex_service ex_projection REFRESH 3) ! 0)"
    using staleness_correctness [where svc = ex_service and p = ex_projection and pool = ex_pool
        and mode = REFRESH and i = 0 and now = 3] h1 h2 h3 h4
    by blast
  moreover have "map_option item_id (content_items ex_service ''c1'') = Some ''c1''"
    and "map_option item_id (content_items ex_service ''c2'') = Some ''c2''"
    by (simp_all add: ex_service_items ex_item1_def ex_item2_def)
  ultimately show ?thesis
    using h1 h3 h4 st by (simp add: get_filtered_ids_def ids)
qed

section \<open>The integrate call under EVOLVE\<close>

lemma evolve_call_argument:
  assumes "items \<noteq> []" and "existing \<noteq> []"
    and "regenerate_section a topic existing
           (join (newline @ newline) (extract_texts items)) (style_guidance cfg) = Some result"
  shows "evolve_section_content (Some a) topic existing items cfg ctx = result"
  using assms by (simp add: evolve_section_content_def Let_def)

text \<open>
  C2.  The claim says that under EVOLVE the integrate call receives the existing
  content together with only the content items missing from the section's last
  snapshot.  The code hands it the texts of all the content items of the pass.  Here
  the section's snapshot already holds \<open>c1\<close>, the items not yet in the snapshot are
  just \<open>c2\<close> (the selection the APPEND branch makes), and with a capability that
  returns its \<^verbatim>\<open>new_content\<close> argument the evolved section holds the text of
  \<open>c1\<close> as well as that of \<open>c2\<close>.
\<close>

theorem evolve_receives_full_content:
  "last_content_snapshot ex_section = [''c1''] \<and>
   filter (\<lambda>c. item_id c \<notin> set (last_content_snapshot ex_section)) [ex_item1, ex_item2]
     = [ex_item2] \<and>
   content (update_section (ex_service\<lparr>ai := Some ex_echo_ai\<rparr>) ex_projection ex_section EVOLVE
              (Some [ex_item1, ex_item2]) 3)
     = ''first memory'' @ newline @ newline @ ''second memory''"
  by (simp add: update_section_def evolve_section_content_def update_content_def Let_def
      ex_section_def ex_item1_def ex_item2_def ex_echo_ai_def extract_texts_def)

section \<open>Word count and update time\<close>

lemma count_words_ex_projection: "count_words (sections ex_projection) = 6"
  by (simp add: count_words_def ex_projection_def ex_section_def ex_locked_section_def
      split_def is_space_def)

text \<open>
  C8.  The claim asks for \<^verbatim>\<open>word_count\<close> and \<^verbatim>\<open>updated_at\<close> to agree with the
  sections after every mutating call, reverts included.  \<^verbatim>\<open>revert_section\<close> changes
  the content of the section and returns without recomputing the statistics: the
  projection, consistent before the call with 6 words, afterwards holds 5 words while
  \<^verbatim>\<open>word_count\<close> is still 6 and \<^verbatim>\<open>updated_at\<close> is still 0.  The sibling
  \<^verbatim>\<open>edit_section\<close> calls \<^verbatim>\<open>_update_stats\<close> and stays consistent on the same
  change of content.
\<close>

theorem revert_section_stale_word_count:
  "word_count ex_projection = count_words (sections ex_projection) \<and>
   fst (revert_section ex_service ''doc_1'' ''sec_a'' 1 3) \<and>
   map_option word_count (projections (snd (revert_section ex_service ''doc_1'' ''sec_a'' 1 3)) ''doc_1'')
     = Some 6 \<and>
   map_option (\<lambda>p. count_words (sections p))
       (projections (snd (revert_section ex_service ''doc_1'' ''sec_a'' 1 3)) ''doc_1'')
     = Some 5 \<and>
   map_option updated_at (projections (snd (revert_section ex_service ''doc_1'' ''sec_a'' 1 3)) ''doc_1'')
     = Some 0 \<and>
   map_option (\<lambda>p. word_count p = count_words (sections p))
       (projections (snd (edit_section ex_service ''doc_1'' ''sec_a'' ''old story'' False None 3)) ''doc_1'')
     = Some True"
proof -
  have sec: "get_section ''sec_a'' ex_projection = Some ex_section"
    by (simp add: get_section_def ex_projection_def ex_section_def)
  have rv: "revert_to_version 1 3 ex_section =
      (True, ex_section\<lparr>history := [ex_old_version, current_snapshot ''revert'' None 3 ex_section],
                        content := ''old story'', summary := ''old'',
                        source_content_ids := [''c0''], version := 3\<rparr>)"
    by (simp add: revert_to_version_def save_to_history_def Let_def ex_section_def
        ex_old_version_def)
  have ms: "map_section ''sec_a'' f (sections ex_projection) = [f ex_section, ex_locked_section]" for f
    by (simp add: ex_projection_def ex_section_def)
  have wc: "word_count ex_projection = 6"
    by (simp add: ex_projection_def)
  have cw: "count_words [ex_section\<lparr>history := h, content := ''old story'', summary := sm,
                                    source_content_ids := ids, version := v\<rparr>,
                         ex_locked_section] = 5" for h sm ids v
    by (simp add: count_words_def ex_section_def ex_locked_section_def split_def is_space_def)
  have cw2: "count_words [finish_editing ''old story'' False None 3 ex_section, ex_locked_section] = 5"
    by (simp add: count_words_def finish_editing_def save_to_history_def Let_def
        ex_section_def ex_locked_section_def split_def is_space_def)
  have up: "updated_at ex_projection = 0"
    by (simp add: ex_projection_def)
  show ?thesis
    by (simp add: revert_section_def edit_section_def ex_service_projection sec rv ms wc cw cw2 up
        count_words_ex_projection update_stats_def)
qed

lemma update_stats_consistent:
  "word_count (update_stats now p) = count_words (sections (update_stats now p)) \<and>
   updated_at (update_stats now p) = now"
  by (simp add: update_stats_def)

lemma mark_updated_consistent:
  "word_count (mark_updated ids mode cs now p) = count_words (sections (mark_updated ids mode cs now p)) \<and>
   updated_at (mark_updated ids mode cs now p) = now"
  by (simp add: mark_updated_def Let_def update_stats_def save_version_def)

lemma edit_section_consistent:
  assumes "edit_section svc pid sid c l u now = (True, svc')"
  shows "\<exists>p'. projections svc' pid = Some p' \<and> word_count p' = count_words (sections p') \<and>
           updated_at p' = now"
  using assms
  by (auto simp: edit_section_def Let_def update_stats_def split: option.splits)

text \<open>
  The section-scoped branch of \<^verbatim>\<open>_handle_update\<close> has the same omission: it
  regenerates the requested section and never calls \<^verbatim>\<open>mark_updated\<close> or
  \<^verbatim>\<open>_update_stats\<close>.
\<close>

lemma scoped_update_stale_word_count:
  "(case handle_update (ex_service\<lparr>ai := Some ex_echo_ai\<rparr>)
           \<lparr>p_projection_id = Some ''doc_1'', p_mode = Some (PStr ''regenerate''),
            p_section_ids = Some [''sec_a'']\<rparr> 3 of
      Inl _ \<Rightarrow> None
    | Inr (svc', events) \<Rightarrow>
        map_option (\<lambda>p. (word_count p, count_words (sections p), updated_at p))
          (projections svc' ''doc_1''))
   = Some (6, 7, 0)"
proof -
  let ?svc = "ex_service\<lparr>ai := Some ex_echo_ai\<rparr>"
  have pr: "projections ?svc ''doc_1'' = Some ex_projection"
    by (simp add: ex_service_projection)
  have md: "UpdateMode_of (PStr ''regenerate'') = Some REGENERATE"
    by (simp add: UpdateMode_of_def)
  have sec: "get_section ''sec_a'' ex_projection = Some ex_section"
    by (simp add: get_section_def ex_projection_def ex_section_def)
  have cr: "can_regenerate ex_section"
    by (simp add: can_regenerate_def ex_section_def)
  have ms: "map_section ''sec_a'' f (sections ex_projection) = [f ex_section, ex_locked_section]" for f
    by (simp add: ex_projection_def ex_section_def)
  have ri: "resolve_items ?svc (content_ids ex_pool) = [ex_item1, ex_item2]"
    by (simp add: resolve_items_def ex_pool_def ex_service_items List.map_filter_simps)
  have pid: "project_id ex_projection = ''proj1''"
    by (simp add: ex_projection_def)
  have gen: "generate_section_content (Some ex_echo_ai) t [ex_item1, ex_item2] cfg ctx
               = ''first memory'' @ newline @ newline @ ''second memory''" for t cfg ctx
    by (simp add: generate_section_content_def extract_texts_def ex_item1_def ex_item2_def
        ex_echo_ai_def Let_def)
  have us: "update_section ?svc ex_projection ex_section REGENERATE None 3
      = update_content (''first memory'' @ newline @ newline @ ''second memory'')
          [''c1'', ''c2''] ''regeneration'' 3 ex_section"
    by (simp add: update_section_def pid ex_service_pool ri gen Let_def)
       (simp add: ex_item1_def ex_item2_def)
  have cw: "count_words [update_content (''first memory'' @ newline @ newline @ ''second memory'')
          [''c1'', ''c2''] ''regeneration'' 3 ex_section, ex_locked_section] = 7"
    by (simp add: count_words_def update_content_def save_to_history_def Let_def
        ex_section_def ex_locked_section_def split_def is_space_def newline_def)
  have wc: "word_count ex_projection = 6" "updated_at ex_projection = 0"
    by (simp_all add: ex_projection_def)
  show ?thesis
    using cw
    by (simp add: handle_update_def Let_def ex_service_projection md update_section_by_id_def
        sec cr ms us wc)
qed

section \<open>Configuration errors\<close>

lemma UpdateMode_of_None_iff:
  "(UpdateMode_of v = None) =
     (v \<notin> PStr ` {''regenerate'', ''evolve'', ''append'', ''refresh''})"
  by (cases v) (auto simp: UpdateMode_of_def)

text \<open>
  C9 (amended).  An update request for an existing projection whose mode is not one of
  the four mode values raises \<^verbatim>\<open>ValueError\<close> before anything is changed: the
  service is as it was.  For a projection id that is not known the handler returns no
  events and raises nothing, whatever the mode.  In \<^verbatim>\<open>_parse_config\<close> an unknown
  style, length or default update mode is no error: the defaults THEMATIC, STANDARD
  and EVOLVE are taken.
\<close>

theorem configuration_errors:
  "(projections svc (case p_projection_id payload of None \<Rightarrow> [] | Some x \<Rightarrow> x) = Some p \<and>
    UpdateMode_of (case p_mode payload of None \<Rightarrow> PStr ''evolve'' | Some v \<Rightarrow> v) = None \<longrightarrow>
      handle_update svc payload now = Inl (ValueError, svc)) \<and>
   (projections svc (case p_projection_id payload of None \<Rightarrow> [] | Some x \<Rightarrow> x) = None \<longrightarrow>
      handle_update svc payload now = Inr (svc, [])) \<and>
   (UpdateMode_of v = None) =
     (v \<notin> PStr ` {''regenerate'', ''evolve'', ''append'', ''refresh''}) \<and>
   (ProjectionStyle_of v = None \<longrightarrow> style (parse_config (d\<lparr>d_style := Some v\<rparr>)) = THEMATIC) \<and>
   (ProjectionLength_of v = None \<longrightarrow>
      length_cfg (parse_config (d\<lparr>d_length := Some v\<rparr>)) = STANDARD) \<and>
   (UpdateMode_of v = None \<longrightarrow>
      default_update_mode (parse_config (d\<lparr>d_default_update_mode := Some v\<rparr>)) = EVOLVE)"
proof (intro conjI impI)
  show "(UpdateMode_of v = None) =
     (v \<notin> PStr ` {''regenerate'', ''evolve'', ''append'', ''refresh''})"
    by (rule UpdateMode_of_None_iff)
qed (simp_all add: handle_update_def parse_config_def Let_def)

text \<open>
  The claim as stated fails in \<^verbatim>\<open>_parse_config\<close>: three unknown values are
  accepted and the default configuration is returned.
\<close>

theorem parse_config_unknown_counterexample:
  "ProjectionStyle_of (PStr ''sonnet'') = None \<and>
   ProjectionLength_of (PStr ''epic'') = None \<and>
   UpdateMode_of (PStr ''rewrite'') = None \<and>
   parse_config ex_bad_config = ex_config"
  by (simp add: ProjectionStyle_of_def ProjectionLength_of_def UpdateMode_of_def
      parse_config_def ex_bad_config_def ex_config_def)

theorem configuration_errors_witness:
  "projections ex_service ''doc_1'' = Some ex_projection \<and>
   UpdateMode_of (PStr ''rewrite'') = None \<and>
   handle_update ex_service
      \<lparr>p_projection_id = Some ''doc_1'', p_mode = Some (PStr ''rewrite''), p_section_ids = None\<rparr> 3
     = Inl (ValueError, ex_service) \<and>
   projections ex_service ''doc_7'' = None \<and>
   handle_update ex_service
      \<lparr>p_projection_id = Some ''doc_7'', p_mode = Some (PStr ''rewrite''), p_section_ids = None\<rparr> 3
     = Inr (ex_service, []) \<and>
   ProjectionStyle_of (PStr ''sonnet'') = None \<and>
   style (parse_config ex_bad_config) = THEMATIC \<and>
   ProjectionLength_of (PStr ''epic'') = None \<and>
   length_cfg (parse_config ex_bad_config) = STANDARD \<and>
   default_update_mode (parse_config ex_bad_config) = EVOLVE"
proof -
  have h1: "projections ex_service ''doc_1'' = Some ex_projection"
    by (rule ex_service_projection)
  have h2: "UpdateMode_of (PStr ''rewrite'') = None"
    by (simp add: UpdateMode_of_def)
  have h3: "projections ex_service ''doc_7'' = None"
    by (simp add: ex_service_def add_content_item_def pool_add_def get_or_create_pool_def
      ex_service_empty_def ex_item1_def ex_item2_def Let_def)
  have h4: "ProjectionStyle_of (PStr ''sonnet'') = None"
    by (simp add: ProjectionStyle_of_def)
  have h5: "ProjectionLength_of (PStr ''epic'') = None"
    by (simp add: ProjectionLength_of_def)
  have e1: "handle_update ex_service
      \<lparr>p_projection_id = Some ''doc_1'', p_mode = Some (PStr ''rewrite''), p_section_ids = None\<rparr> 3
     = Inl (ValueError, ex_service)"
    using configuration_errors [where svc = ex_service and p = ex_projection and now = 3
        and payload = "\<lparr>p_projection_id = Some ''doc_1'', p_mode = Some (PStr ''rewrite''),
                        p_section_ids = None\<rparr>"] h1 h2
    by simp
  have e2: "handle_update ex_service
      \<lparr>p_projection_id = Some ''doc_7'', p_mode = Some (PStr ''rewrite''), p_section_ids = None\<rparr> 3
     = Inr (ex_service, [])"
    using configuration_errors [where svc = ex_service and now = 3
        and payload = "\<lparr>p_projection_id = Some ''doc_7'', p_mode = Some (PStr ''rewrite''),
                        p_section_ids = None\<rparr>"] h3
    by simp
  have d1: "ex_bad_config\<lparr>d_style := Some (PStr ''sonnet'')\<rparr> = ex_bad_config"
    "ex_bad_config\<lparr>d_length := Some (PStr ''epic'')\<rparr> = ex_bad_config"
    "ex_bad_config\<lparr>d_default_update_mode := Some (PStr ''rewrite'')\<rparr> = ex_bad_config"
    by (simp_all add: ex_bad_config_def)
  have e3: "style (parse_config ex_bad_config) = THEMATIC"
    using configuration_errors [where v = "PStr ''sonnet''" and d = ex_bad_config] h4 d1 by simp
  have e4: "length_cfg (parse_config ex_bad_config) = STANDARD"
    using configuration_errors [where v = "PStr ''epic''" and d = ex_bad_config] h5 d1 by simp
  have e5: "default_update_mode (parse_config ex_bad_config) = EVOLVE"
    using configuration_errors [where v = "PStr ''rewrite''" and d = ex_bad_config] h2 d1 by simp
  from h1 h2 h3 h4 h5 e1 e2 e3 e4 e5 show ?thesis by simp
qed

section \<open>Reordering sections\<close>

text \<open>
  C10.  The claim gives the kept sections the dense order indices \<open>0..k-1\<close>.
  \<^verbatim>\<open>reorder_sections\<close> numbers a kept section with its position in the given id
  list, counting the ids that match no section: after an unknown id the only kept
  section has order 1, not 0.
\<close>

theorem reorder_sections_sparse_order:
  "map sec_id (sections ex_projection) = [''sec_a'', ''sec_b''] \<and>
   map sec_id (sections (reorder_sections [''zzz'', ''sec_a''] ex_projection)) = [''sec_a''] \<and>
   map order_index (sections (reorder_sections [''zzz'', ''sec_a''] ex_projection)) = [1]"
  by (simp add: reorder_sections_def id_to_section_def ex_projection_def ex_section_def
      ex_locked_section_def enumerate_eq_zip List.map_filter_simps upt_rec)

end
